theory Spec2Isabelle
  imports Complex_Main "HOL-Library.Product_Lexorder"
begin

section \<open>Python values held by the vector database\<close>

text \<open>
  \<^verbatim>\<open>src/vector_db_service.py\<close> stores each document as a dict with the keys
  \<^verbatim>\<open>"text"\<close> and \<^verbatim>\<open>"metadata"\<close>. The metadata argument of \<^verbatim>\<open>add_document\<close> is any
  Python object (annotated \<^verbatim>\<open>Dict = None\<close>), so it is modelled by a small datatype of
  Python values with Python's truth test. A dict is an association list in insertion
  order.
\<close>

datatype pyval =
    PNone
  | PBool bool
  | PInt int
  | PStr string
  | PDict "(string \<times> pyval) list"

fun truthy :: "pyval \<Rightarrow> bool" where
  "truthy PNone = False"
| "truthy (PBool b) = b"
| "truthy (PInt i) = (i \<noteq> 0)"
| "truthy (PStr s) = (s \<noteq> [])"
| "truthy (PDict kvs) = (kvs \<noteq> [])"

fun is_dict :: "pyval \<Rightarrow> bool" where
  "is_dict (PDict kvs) = True"
| "is_dict v = False"

record document =
  doc_text :: string
  doc_metadata :: pyval

text \<open>The exceptions that the modelled calls can raise.\<close>

datatype error =
    EmbeddingFailure    \<comment> \<open>\<^verbatim>\<open>self.model.encode\<close> raised\<close>
  | AssertionError      \<comment> \<open>an \<^verbatim>\<open>assert\<close> of the index library's Python wrapper failed\<close>
  | KeyError            \<comment> \<open>a dict lookup \<^verbatim>\<open>doc["text"]\<close> found no such key\<close>

section \<open>The flat L2 index\<close>

text \<open>
  \<^verbatim>\<open>faiss.IndexFlatL2\<close> is a third-party library, so its three operations used by the
  service are modelled here from the library's behaviour: the index keeps its dimension
  and the stored vectors in insertion order; \<^verbatim>\<open>add\<close> and \<^verbatim>\<open>search\<close> assert that the
  vector has the index's dimension, and \<^verbatim>\<open>search\<close> also asserts \<^verbatim>\<open>k > 0\<close>; the hits
  are the \<open>k\<close> stored vectors of least distance, least first, equal distances in
  insertion order. The service never asks for more than \<^verbatim>\<open>ntotal\<close> hits, so the padding
  that the library produces beyond \<^verbatim>\<open>ntotal\<close> is left out.

  The library computes the squared Euclidean distance in \<^verbatim>\<open>float32\<close> arithmetic, so its
  value is rounded and is not the exact sum of squares. The distance that the library
  reports for a query and a stored vector is therefore a parameter \<open>metric\<close> of the
  index operations: any function, read as the real number that the reported
  \<^verbatim>\<open>float32\<close> denotes. A reported distance that is not finite (overflow, not-a-number)
  is outside the model; there the library reports the label \<^verbatim>\<open>-1\<close> in place of a
  position.
\<close>

record flat_index =
  dim :: nat
  vectors :: "real list list"

definition IndexFlatL2 :: "nat \<Rightarrow> flat_index" where
  "IndexFlatL2 n = \<lparr>dim = n, vectors = []\<rparr>"

definition ntotal :: "flat_index \<Rightarrow> int" where
  "ntotal idx = int (length (vectors idx))"

definition index_add :: "flat_index \<Rightarrow> real list \<Rightarrow> error + flat_index" where
  "index_add idx v =
     (if length v \<noteq> dim idx then Inl AssertionError
      else Inr (idx\<lparr>vectors := vectors idx @ [v]\<rparr>))"

definition rank_key :: "nat \<times> real \<Rightarrow> real \<times> nat" where
  "rank_key h = (snd h, fst h)"

definition ranked ::
  "(real list \<Rightarrow> real list \<Rightarrow> real) \<Rightarrow> flat_index \<Rightarrow> real list \<Rightarrow> (nat \<times> real) list" where
  "ranked metric idx q =
     sort_key rank_key (zip [0..<length (vectors idx)] (map (metric q) (vectors idx)))"

text \<open>
  The order of the hits: by distance, and by position where the distances are equal.
\<close>

definition lex_before :: "nat \<times> real \<Rightarrow> nat \<times> real \<Rightarrow> bool" where
  "lex_before a b = (snd a < snd b \<or> (snd a = snd b \<and> fst a < fst b))"

definition index_search ::
  "(real list \<Rightarrow> real list \<Rightarrow> real) \<Rightarrow> flat_index \<Rightarrow> real list \<Rightarrow> int
     \<Rightarrow> error + (nat \<times> real) list" where
  "index_search metric idx q k =
     (if length q \<noteq> dim idx then Inl AssertionError
      else if \<not> k > 0 then Inl AssertionError
      else Inr (take (nat k) (ranked metric idx q)))"

section \<open>The service\<close>

text \<open>
  The state of a \<^verbatim>\<open>VectorDBService\<close> object is its index and its list of documents.
  The sentence-transformer model is a parameter \<open>encode\<close> of every operation that
  embeds a text: \<open>None\<close> stands for an exception raised by the model. The dimension is
  the constant 384 of the constructor. The operations that search the index also take
  the library's \<open>metric\<close>.
\<close>

record service =
  index :: flat_index
  documents :: "document list"

definition dimension :: nat where
  "dimension = 384"

definition add_document ::
  "(string \<Rightarrow> real list option) \<Rightarrow> service \<Rightarrow> string \<Rightarrow> pyval \<Rightarrow> error + service" where
  "add_document encode s txt md =
     (case encode txt of
        None \<Rightarrow> Inl EmbeddingFailure
      | Some embedding \<Rightarrow>
          (case index_add (index s) embedding of
             Inl e \<Rightarrow> Inl e
           | Inr idx' \<Rightarrow>
               Inr (s\<lparr>index := idx',
                      documents := documents s @
                        [\<lparr>doc_text = txt,
                          doc_metadata = (if truthy md then md else PDict [])\<rparr>]\<rparr>)))"

text \<open>The loop of \<^verbatim>\<open>search\<close> over the zipped hits, with its guard on the position.\<close>

fun resolve :: "document list \<Rightarrow> (nat \<times> real) list \<Rightarrow> (document \<times> real) list" where
  "resolve docs [] = []"
| "resolve docs ((i, distance) # hits) =
     (if i < length docs then (docs ! i, distance) # resolve docs hits
      else resolve docs hits)"

definition search ::
  "(real list \<Rightarrow> real list \<Rightarrow> real) \<Rightarrow> (string \<Rightarrow> real list option) \<Rightarrow> service \<Rightarrow> string \<Rightarrow> int
     \<Rightarrow> error + (document \<times> real) list" where
  "search metric encode s query k =
     (if ntotal (index s) = 0 then Inr []
      else
        (case encode query of
           None \<Rightarrow> Inl EmbeddingFailure
         | Some query_embedding \<Rightarrow>
             (case index_search metric (index s) query_embedding (min k (ntotal (index s))) of
                Inl e \<Rightarrow> Inl e
              | Inr hits \<Rightarrow> Inr (resolve (documents s) hits))))"

definition get_relevant_knowledge ::
  "(real list \<Rightarrow> real list \<Rightarrow> real) \<Rightarrow> (string \<Rightarrow> real list option) \<Rightarrow> service \<Rightarrow> string \<Rightarrow> int
     \<Rightarrow> error + document list" where
  "get_relevant_knowledge metric encode s symptoms k =
     (case search metric encode s symptoms k of
        Inl e \<Rightarrow> Inl e
      | Inr results \<Rightarrow> Inr (map fst results))"

section \<open>The starter table\<close>

text \<open>
  The ten entries of \<^verbatim>\<open>medical_knowledge\<close> in \<^verbatim>\<open>_initialize_medical_knowledge\<close>, in the
  order of the source. Each entry is a dict with the keys \<^verbatim>\<open>"text"\<close>, \<^verbatim>\<open>"category"\<close> and
  \<^verbatim>\<open>"urgency"\<close>. A Python string is a list of code points; the degree sign of the first
  text is the code point \<open>0xB0\<close>.
\<close>

definition starter_text_0 :: string where
  "starter_text_0 =
     ''Fever above 103'' @ [CHR 0xB0] @ ''F (39.4'' @ [CHR 0xB0] @ ''C) in adults or 100.4'' @ [CHR 0xB0] @ ''F in infants under 3 months requires immediate medical attention''"

definition starter_text_1 :: string where
  "starter_text_1 =
     ''Chest pain with shortness of breath, sweating, or pain radiating to arm/jaw may indicate heart attack - seek emergency care''"

definition starter_text_2 :: string where
  "starter_text_2 =
     ''Severe headache with confusion, vision changes, or difficulty speaking may indicate stroke - call emergency services''"

definition starter_text_3 :: string where
  "starter_text_3 =
     ''Difficulty breathing, wheezing, or inability to speak in full sentences requires urgent evaluation''"

definition starter_text_4 :: string where
  "starter_text_4 =
     ''Severe abdominal pain with fever, vomiting, or inability to pass gas may indicate serious condition''"

definition starter_text_5 :: string where
  "starter_text_5 =
     ''Common cold symptoms: runny nose, sore throat, mild cough - usually self-limiting, rest and fluids recommended''"

definition starter_text_6 :: string where
  "starter_text_6 =
     ''Mild headache without other symptoms can be treated with over-the-counter pain relievers and rest''"

definition starter_text_7 :: string where
  "starter_text_7 =
     ''Allergic reaction with swelling of face, tongue, or difficulty breathing is life-threatening - use EpiPen if available and call 911''"

definition starter_text_8 :: string where
  "starter_text_8 =
     ''Dehydration symptoms: extreme thirst, dark urine, dizziness - increase fluid intake, seek care if severe''"

definition starter_text_9 :: string where
  "starter_text_9 =
     ''Persistent vomiting or diarrhea for more than 24 hours, especially with blood, requires medical evaluation''"

definition knowledge_entry :: "string \<Rightarrow> string \<Rightarrow> string \<Rightarrow> (string \<times> pyval) list" where
  "knowledge_entry t c u = [(''text'', PStr t), (''category'', PStr c), (''urgency'', PStr u)]"

definition medical_knowledge :: "(string \<times> pyval) list list" where
  "medical_knowledge =
     [knowledge_entry starter_text_0 ''fever'' ''HIGH'',
      knowledge_entry starter_text_1 ''cardiac'' ''CRITICAL'',
      knowledge_entry starter_text_2 ''neurological'' ''CRITICAL'',
      knowledge_entry starter_text_3 ''respiratory'' ''HIGH'',
      knowledge_entry starter_text_4 ''gastrointestinal'' ''HIGH'',
      knowledge_entry starter_text_5 ''respiratory'' ''LOW'',
      knowledge_entry starter_text_6 ''pain'' ''MINIMAL'',
      knowledge_entry starter_text_7 ''allergic'' ''CRITICAL'',
      knowledge_entry starter_text_8 ''general'' ''MODERATE'',
      knowledge_entry starter_text_9 ''gastrointestinal'' ''MODERATE'']"

section \<open>Persistence\<close>

text \<open>
  The two files under \<^verbatim>\<open>db_path\<close>. A file is absent, holds bytes that do not
  deserialise (truncated or corrupt), or holds what \<^verbatim>\<open>faiss.write_index\<close> or
  \<^verbatim>\<open>pickle.dump\<close> wrote in full; reading an intact file gives back what was written.
\<close>

datatype 'a artifact = Absent | Corrupt | Intact 'a

record disk =
  index_file :: "flat_index artifact"
  data_file :: "document list artifact"

text \<open>
  \<^verbatim>\<open>save\<close> runs \<^verbatim>\<open>faiss.write_index\<close>, then \<^verbatim>\<open>open(self.data_file, 'wb')\<close>, then
  \<^verbatim>\<open>pickle.dump\<close>, all inside one \<^verbatim>\<open>try\<close> whose handler only logs. Where the first
  exception is raised is decided by the environment, so it is an argument of the model:
  opening a file for writing fails before the file is touched, and a write that fails
  after the file was opened leaves it truncated.
\<close>

datatype save_fault =
    NoFault           \<comment> \<open>both writes complete\<close>
  | IndexOpenFails    \<comment> \<open>\<^verbatim>\<open>write_index\<close> cannot open \<^verbatim>\<open>faiss.index\<close>\<close>
  | IndexWriteFails   \<comment> \<open>\<^verbatim>\<open>write_index\<close> fails while writing\<close>
  | DataOpenFails     \<comment> \<open>\<^verbatim>\<open>open(self.data_file, 'wb')\<close> raises\<close>
  | DataDumpFails     \<comment> \<open>\<^verbatim>\<open>pickle.dump\<close> raises\<close>

fun save :: "save_fault \<Rightarrow> service \<Rightarrow> disk \<Rightarrow> disk" where
  "save IndexOpenFails s dk = dk"
| "save IndexWriteFails s dk = dk\<lparr>index_file := Corrupt\<rparr>"
| "save DataOpenFails s dk = dk\<lparr>index_file := Intact (index s)\<rparr>"
| "save DataDumpFails s dk = dk\<lparr>index_file := Intact (index s), data_file := Corrupt\<rparr>"
| "save NoFault s dk = dk\<lparr>index_file := Intact (index s), data_file := Intact (documents s)\<rparr>"

text \<open>
  \<^verbatim>\<open>load\<close> assigns both fields of the object, so the model returns the new state: what
  the two files hold if both deserialise, and the handler's empty index and list if
  either read raises.
\<close>

definition load :: "disk \<Rightarrow> service" where
  "load dk =
     (case index_file dk of
        Intact idx \<Rightarrow>
          (case data_file dk of
             Intact docs \<Rightarrow> \<lparr>index = idx, documents = docs\<rparr>
           | _ \<Rightarrow> \<lparr>index = IndexFlatL2 dimension, documents = []\<rparr>)
      | _ \<Rightarrow> \<lparr>index = IndexFlatL2 dimension, documents = []\<rparr>)"

section \<open>Seeding and construction\<close>

text \<open>The loop \<^verbatim>\<open>for doc in medical_knowledge: self.add_document(doc["text"], doc)\<close>.\<close>

fun add_all ::
  "(string \<Rightarrow> real list option) \<Rightarrow> service \<Rightarrow> (string \<times> pyval) list list \<Rightarrow> error + service" where
  "add_all encode s [] = Inr s"
| "add_all encode s (doc # rest) =
     (case map_of doc ''text'' of
        Some (PStr t) \<Rightarrow>
          (case add_document encode s t (PDict doc) of
             Inl e \<Rightarrow> Inl e
           | Inr s' \<Rightarrow> add_all encode s' rest)
      | _ \<Rightarrow> Inl KeyError)"

definition initialize_medical_knowledge ::
  "(string \<Rightarrow> real list option) \<Rightarrow> save_fault \<Rightarrow> service \<Rightarrow> disk \<Rightarrow> error + service \<times> disk" where
  "initialize_medical_knowledge encode f s dk =
     (case add_all encode s medical_knowledge of
        Inl e \<Rightarrow> Inl e
      | Inr s' \<Rightarrow> Inr (s', save f s' dk))"

text \<open>
  The constructor: \<^verbatim>\<open>if self.index_file.exists(): self.load()\<close>, otherwise a new empty
  index and list, then the seeding.
\<close>

definition init ::
  "(string \<Rightarrow> real list option) \<Rightarrow> save_fault \<Rightarrow> disk \<Rightarrow> error + service \<times> disk" where
  "init encode f dk =
     (if index_file dk \<noteq> Absent then Inr (load dk, dk)
      else initialize_medical_knowledge encode f
             \<lparr>index = IndexFlatL2 dimension, documents = []\<rparr> dk)"

section \<open>Sequences of operations\<close>

text \<open>
  The public operations on one storage location, applied one after the other; the
  seeding is the private method that only the constructor calls. \<open>Construct\<close> is a new
  \<^verbatim>\<open>VectorDBService\<close> on the same location, which replaces the object in use. An
  operation that raises leaves the object as it was (nothing is assigned before the
  raise in \<^verbatim>\<open>add_document\<close>; a constructor that raises yields no new object). The
  starting point is the empty corpus on an empty location.
\<close>

datatype operation =
    Construct save_fault
  | AddDocument string pyval
  | Save save_fault
  | Load

fun step :: "(string \<Rightarrow> real list option) \<Rightarrow> service \<times> disk \<Rightarrow> operation \<Rightarrow> service \<times> disk" where
  "step encode (s, dk) (Construct f) =
     (case init encode f dk of Inl e \<Rightarrow> (s, dk) | Inr sd \<Rightarrow> sd)"
| "step encode (s, dk) (AddDocument t md) =
     (case add_document encode s t md of Inl e \<Rightarrow> (s, dk) | Inr s' \<Rightarrow> (s', dk))"
| "step encode (s, dk) (Save f) = (s, save f s dk)"
| "step encode (s, dk) Load = (load dk, dk)"

definition start :: "service \<times> disk" where
  "start = (\<lparr>index = IndexFlatL2 dimension, documents = []\<rparr>,
            \<lparr>index_file = Absent, data_file = Absent\<rparr>)"

definition run :: "(string \<Rightarrow> real list option) \<Rightarrow> operation list \<Rightarrow> service \<times> disk" where
  "run encode ops = foldl (step encode) start ops"

definition counts_agree :: "service \<Rightarrow> bool" where
  "counts_agree s = (length (vectors (index s)) = length (documents s))"

text \<open>
  What the seeding stores for one entry of the table: the entry's text, and the whole
  entry as metadata.
\<close>

definition entry_text :: "(string \<times> pyval) list \<Rightarrow> string" where
  "entry_text doc = (case map_of doc ''text'' of Some (PStr t) \<Rightarrow> t | _ \<Rightarrow> [])"

definition entry_document :: "(string \<times> pyval) list \<Rightarrow> document" where
  "entry_document doc = \<lparr>doc_text = entry_text doc, doc_metadata = PDict doc\<rparr>"

text \<open>The model embeds a text into a vector of the service's dimension.\<close>

definition encodes :: "(string \<Rightarrow> real list option) \<Rightarrow> string \<Rightarrow> bool" where
  "encodes encode t = (case encode t of None \<Rightarrow> False | Some v \<Rightarrow> length v = dimension)"

text \<open>
  The two files are mutually consistent when the index file is the first to appear
  and, where both deserialise, they hold as many vectors as documents.
\<close>

definition disk_ok :: "disk \<Rightarrow> bool" where
  "disk_ok dk =
     (case index_file dk of
        Absent \<Rightarrow> data_file dk = Absent
      | Corrupt \<Rightarrow> True
      | Intact idx \<Rightarrow>
          (case data_file dk of
             Intact docs \<Rightarrow> length (vectors idx) = length docs
           | _ \<Rightarrow> True))"

text \<open>The object and the two files together, as a sequence of operations leaves them.\<close>

definition consistent :: "service \<times> disk \<Rightarrow> bool" where
  "consistent sd = (counts_agree (fst sd) \<and> disk_ok (snd sd))"

section \<open>Example inputs\<close>

text \<open>
  A stand-in for the embedding model, used where a property is evaluated on a concrete
  input: every component of the vector is the length of the text.
\<close>

definition demo_encode :: "string \<Rightarrow> real list option" where
  "demo_encode t = Some (replicate 384 (real (length t)))"

text \<open>
  The exact squared Euclidean distance, as the metric on the example inputs. The
  texts embedded in the examples have fewer than 200 characters, so the components of
  their \<open>demo_encode\<close> vectors are whole numbers below 200 and every sum of up to 384
  squares of their differences is a whole number below \<open>2 ^ 24\<close>: the \<^verbatim>\<open>float32\<close>
  computation of the library is exact on them and reports this value.
\<close>

definition l2sqr :: "real list \<Rightarrow> real list \<Rightarrow> real" where
  "l2sqr x y = (\<Sum>(a, b) \<leftarrow> zip x y. (a - b) ^ 2)"

definition trauma_note :: operation where
  "trauma_note =
     AddDocument ''sprained ankle after fall'' (PDict [(''category'', PStr ''trauma'')])"


section \<open>Auxiliary facts\<close>

lemmas eval_defs = run_def start_def init_def initialize_medical_knowledge_def
  medical_knowledge_def knowledge_entry_def add_document_def index_add_def demo_encode_def
  dimension_def IndexFlatL2_def load_def counts_agree_def trauma_note_def

lemmas text_defs = starter_text_0_def starter_text_1_def starter_text_2_def starter_text_3_def
  starter_text_4_def starter_text_5_def starter_text_6_def starter_text_7_def starter_text_8_def
  starter_text_9_def

subsection \<open>The hits of the index\<close>

lemma resolve_filter:
  "resolve docs hits =
     map (\<lambda>h. (docs ! fst h, snd h)) (filter (\<lambda>h. fst h < length docs) hits)"
  by (induction hits) auto

lemma resolve_in_range:
  assumes "\<forall>h \<in> set hits. fst h < length docs"
  shows "resolve docs hits = map (\<lambda>h. (docs ! fst h, snd h)) hits"
proof -
  have "filter (\<lambda>h. fst h < length docs) hits = hits"
    using assms by (simp add: filter_id_conv)
  then show ?thesis by (simp add: resolve_filter)
qed

lemma length_ranked: "length (ranked metric idx q) = length (vectors idx)"
  by (simp add: ranked_def)

lemma set_ranked:
  "set (ranked metric idx q) = {(i, metric q (vectors idx ! i)) | i. i < length (vectors idx)}"
  unfolding ranked_def by (force simp: set_zip)

lemma distinct_ranked: "distinct (ranked metric idx q)"
  unfolding ranked_def by (simp add: distinct_zipI1)

lemma sorted_ranked: "sorted_wrt lex_before (ranked metric idx q)"
proof -
  have s: "sorted_wrt (\<lambda>a b. rank_key a \<le> rank_key b) (ranked metric idx q)"
    unfolding ranked_def using sorted_sort_key[of rank_key] by (simp add: sorted_map)
  have "sorted_wrt (\<lambda>a b. rank_key a \<le> rank_key b \<and> a \<noteq> b) (ranked metric idx q)"
    using s distinct_ranked[of metric idx q]
    by (auto simp: sorted_wrt_iff_nth_less distinct_conv_nth)
  then show ?thesis
    by (rule sorted_wrt_mono_rel[rotated]) (auto simp: lex_before_def rank_key_def prod_eq_iff)
qed

lemma l2sqr_replicate: "l2sqr (replicate n a) (replicate n b) = real n * (a - b) ^ 2"
  by (simp add: l2sqr_def sum_list_replicate)

lemma search_nonempty:
  assumes "vectors (index s) \<noteq> []" "0 < k" "encode query = Some qe"
    "length qe = dim (index s)"
  shows "search metric encode s query k =
    Inr (resolve (documents s) (take (nat k) (ranked metric (index s) qe)))"
proof -
  have n: "ntotal (index s) \<noteq> 0" "0 < ntotal (index s)"
    using assms(1) by (simp_all add: ntotal_def)
  have "take (nat (min k (ntotal (index s)))) (ranked metric (index s) qe) =
        take (nat k) (ranked metric (index s) qe)"
    by (simp add: ntotal_def min_def length_ranked)
  then show ?thesis
    using assms n by (simp add: search_def index_search_def)
qed

subsection \<open>Counts under the operations\<close>

lemma add_document_counts:
  "add_document encode s t md = Inr s' \<Longrightarrow> counts_agree s \<Longrightarrow> counts_agree s'"
  by (auto simp: add_document_def index_add_def counts_agree_def
      split: option.splits if_splits)

lemma add_all_counts:
  "add_all encode s ks = Inr s' \<Longrightarrow> counts_agree s \<Longrightarrow> counts_agree s'"
proof (induction ks arbitrary: s)
  case Nil
  then show ?case by simp
next
  case (Cons doc rest)
  then show ?case
    by (auto split: option.splits pyval.splits sum.splits dest: add_document_counts)
qed

lemma load_counts: "disk_ok dk \<Longrightarrow> counts_agree (load dk)"
  by (auto simp: disk_ok_def load_def counts_agree_def IndexFlatL2_def split: artifact.splits)

lemma save_disk_ok:
  "counts_agree s \<Longrightarrow> disk_ok dk \<Longrightarrow> f \<noteq> DataOpenFails \<or> index_file dk = Absent \<Longrightarrow>
   disk_ok (save f s dk)"
  by (cases f) (auto simp: disk_ok_def counts_agree_def split: artifact.splits)

lemma init_consistent:
  assumes "disk_ok dk" "init encode f dk = Inr sd"
  shows "consistent sd"
proof (cases "index_file dk = Absent")
  case True
  then obtain s' where s':
    "add_all encode \<lparr>index = IndexFlatL2 dimension, documents = []\<rparr> medical_knowledge = Inr s'"
    "sd = (s', save f s' dk)"
    using assms(2) by (auto simp: init_def initialize_medical_knowledge_def split: sum.splits)
  have "counts_agree s'"
    using s'(1) by (rule add_all_counts) (simp add: counts_agree_def IndexFlatL2_def)
  then show ?thesis
    using s'(2) True assms(1) by (simp add: consistent_def save_disk_ok)
next
  case False
  then show ?thesis
    using assms by (auto simp: init_def consistent_def load_counts)
qed

lemma step_consistent:
  assumes "consistent sd" "op \<noteq> Save DataOpenFails"
  shows "consistent (step encode sd op)"
proof (cases sd)
  case (Pair s dk)
  show ?thesis
  proof (cases op)
    case (Construct f)
    then show ?thesis
      using assms Pair init_consistent[of dk encode f]
      by (auto simp: consistent_def split: sum.splits)
  next
    case (AddDocument t md)
    then show ?thesis
      using assms Pair
      by (auto simp: consistent_def split: sum.splits dest: add_document_counts)
  next
    case (Save f)
    then show ?thesis
      using assms Pair by (simp add: consistent_def save_disk_ok)
  next
    case Load
    then show ?thesis
      using assms Pair by (simp add: consistent_def load_counts)
  qed
qed

lemma foldl_step_consistent:
  "consistent sd \<Longrightarrow> Save DataOpenFails \<notin> set ops \<Longrightarrow>
   consistent (foldl (step encode) sd ops)"
proof (induction ops arbitrary: sd)
  case Nil
  then show ?case by simp
next
  case (Cons op ops)
  have "consistent (step encode sd op)"
    using Cons.prems by (intro step_consistent) auto
  then show ?case
    using Cons.prems by (simp add: Cons.IH)
qed

lemma start_consistent: "consistent start"
  by (simp add: consistent_def start_def counts_agree_def disk_ok_def IndexFlatL2_def)

subsection \<open>The seeding loop\<close>

lemma add_all_ok:
  assumes "list_all (\<lambda>e. \<exists>t. map_of e ''text'' = Some (PStr t) \<and> encodes encode t) ks"
    "dim (index s) = dimension"
  shows "add_all encode s ks =
     Inr \<lparr>index = \<lparr>dim = dimension,
                    vectors = vectors (index s) @ map (\<lambda>e. the (encode (entry_text e))) ks\<rparr>,
          documents = documents s @ map entry_document ks\<rparr>"
  using assms
proof (induction ks arbitrary: s)
  case Nil
  then show ?case by simp
next
  case (Cons doc rest)
  from Cons.prems obtain t v where t:
    "map_of doc ''text'' = Some (PStr t)" "encode t = Some v" "length v = dimension"
    by (auto simp: encodes_def split: option.splits)
  let ?s' = "s\<lparr>index := (index s)\<lparr>vectors := vectors (index s) @ [v]\<rparr>,
                 documents := documents s @ [\<lparr>doc_text = t, doc_metadata = PDict doc\<rparr>]\<rparr>"
  have ne: "doc \<noteq> []"
    using t(1) by auto
  have a: "add_document encode s t (PDict doc) = Inr ?s'"
    using t Cons.prems(2) ne by (simp add: add_document_def index_add_def)
  have "add_all encode ?s' rest =
     Inr \<lparr>index = \<lparr>dim = dimension,
                    vectors = vectors (index ?s') @ map (\<lambda>e. the (encode (entry_text e))) rest\<rparr>,
          documents = documents ?s' @ map entry_document rest\<rparr>"
    using Cons.prems by (intro Cons.IH) simp_all
  then show ?case
    using t a by (simp add: entry_text_def entry_document_def)
qed

lemma medical_knowledge_texts:
  "list_all (\<lambda>e. map_of e ''text'' = Some (PStr (entry_text e))) medical_knowledge"
  by (simp add: medical_knowledge_def knowledge_entry_def entry_text_def)

lemma seed_ok:
  assumes "list_all (\<lambda>e. encodes encode (entry_text e)) medical_knowledge"
    "dim (index s) = dimension"
  shows "initialize_medical_knowledge encode f s dk =
     Inr (\<lparr>index = \<lparr>dim = dimension,
              vectors = vectors (index s) @
                map (\<lambda>e. the (encode (entry_text e))) medical_knowledge\<rparr>,
            documents = documents s @ map entry_document medical_knowledge\<rparr>,
          save f \<lparr>index = \<lparr>dim = dimension,
              vectors = vectors (index s) @
                map (\<lambda>e. the (encode (entry_text e))) medical_knowledge\<rparr>,
            documents = documents s @ map entry_document medical_knowledge\<rparr> dk)"
proof -
  have "list_all (\<lambda>e. \<exists>t. map_of e ''text'' = Some (PStr t) \<and> encodes encode t)
          medical_knowledge"
    using assms(1) medical_knowledge_texts by (auto simp: list_all_iff)
  from add_all_ok[OF this assms(2)] show ?thesis
    by (simp add: initialize_medical_knowledge_def)
qed

lemma demo_encode_starter:
  "list_all (\<lambda>e. encodes demo_encode (entry_text e)) medical_knowledge"
  by (simp add: medical_knowledge_def encodes_def demo_encode_def dimension_def)

section \<open>Results\<close>

text \<open>
  C1. After every sequence of completed operations (construction, which seeds an empty
  location, \<^verbatim>\<open>add_document\<close>, \<^verbatim>\<open>save\<close>, \<^verbatim>\<open>load\<close>), the index holds as many embeddings as
  there are documents, provided no \<^verbatim>\<open>save\<close> of the sequence fails at opening the
  document file after it has rewritten the index file. Such a save leaves a new index
  file beside the old document file, and \<^verbatim>\<open>load\<close> takes the two as they are.
\<close>

theorem counts_agree_without_split_save:
  assumes "Save DataOpenFails \<notin> set ops"
  shows "counts_agree (fst (run encode ops))"
  using foldl_step_consistent[OF start_consistent assms, of encode]
  by (simp add: run_def consistent_def)

theorem counts_agree_without_split_save_witness:
  "Save DataOpenFails \<notin> set [Construct NoFault, trauma_note, Save DataDumpFails, Load]
   \<and> counts_agree (fst (run demo_encode [Construct NoFault, trauma_note, Save DataDumpFails, Load]))"
  using counts_agree_without_split_save
    [of "[Construct NoFault, trauma_note, Save DataDumpFails, Load]" demo_encode]
  by (simp add: trauma_note_def)

text \<open>
  The invariant as C1 states it, for every sequence, fails: construct on an empty
  location (ten documents, saved), add one document, save with the document file
  failing to open, construct again. The second object has eleven embeddings and ten
  documents.
\<close>

theorem counts_diverge_after_split_save:
  "\<not> counts_agree
       (fst (run demo_encode
          [Construct NoFault, trauma_note, Save DataOpenFails, Construct NoFault]))"
  by (simp add: eval_defs)

text \<open>
  C2. On a corpus with as many embeddings as documents, for \<open>k > 0\<close> and a query that
  the model embeds into a vector of the index's dimension, \<^verbatim>\<open>search\<close> returns
  \<open>min k total_count\<close> results: the documents at the positions of the hits, each with
  the distance that the index reports between the query embedding and the embedding
  stored at that position (the squared Euclidean distance as computed in \<^verbatim>\<open>float32\<close>,
  for any finite value it takes), in ascending order of that distance, equal reported
  distances in ascending order of position, and every position left out comes after
  every hit in that order.
\<close>

theorem search_returns_nearest:
  assumes "counts_agree s" "0 < k" "encode query = Some qe" "length qe = dim (index s)"
  shows "\<exists>hits.
      search metric encode s query k = Inr (map (\<lambda>h. (documents s ! fst h, snd h)) hits)
    \<and> length hits = min (nat k) (length (vectors (index s)))
    \<and> (\<forall>h \<in> set hits. fst h < length (vectors (index s))
          \<and> snd h = metric qe (vectors (index s) ! fst h))
    \<and> sorted (map snd hits)
    \<and> sorted_wrt lex_before hits
    \<and> (\<forall>j < length (vectors (index s)). j \<notin> fst ` set hits \<longrightarrow>
          (\<forall>h \<in> set hits. lex_before h (j, metric qe (vectors (index s) ! j))))"
proof (cases "vectors (index s) = []")
  case True
  then have "search metric encode s query k = Inr []"
    by (simp add: search_def ntotal_def)
  with True show ?thesis by simp
next
  case False
  define R where "R = ranked metric (index s) qe"
  define hits where "hits = take (nat k) R"
  have setR: "set R = {(i, metric qe (vectors (index s) ! i)) | i. i < length (vectors (index s))}"
    by (simp add: R_def set_ranked)
  have sub: "set hits \<subseteq> set R"
    by (simp add: hits_def set_take_subset)
  have rng: "\<forall>h \<in> set hits. fst h < length (vectors (index s))
          \<and> snd h = metric qe (vectors (index s) ! fst h)"
    using sub setR by auto
  then have "\<forall>h \<in> set hits. fst h < length (documents s)"
    using assms(1) by (simp add: counts_agree_def)
  then have res: "resolve (documents s) hits = map (\<lambda>h. (documents s ! fst h, snd h)) hits"
    by (rule resolve_in_range)
  have 1: "search metric encode s query k = Inr (map (\<lambda>h. (documents s ! fst h, snd h)) hits)"
    using search_nonempty[of s k encode query qe metric] False assms(2-4) res
    by (simp add: hits_def R_def)
  have 2: "length hits = min (nat k) (length (vectors (index s)))"
    by (simp add: hits_def R_def length_ranked min.commute)
  have sR: "sorted_wrt lex_before R"
    by (simp add: R_def sorted_ranked)
  have split: "R = hits @ drop (nat k) R"
    by (simp add: hits_def)
  have 4: "sorted_wrt lex_before hits"
    using sR split by (metis sorted_wrt_append)
  have cross: "\<forall>x \<in> set hits. \<forall>y \<in> set (drop (nat k) R). lex_before x y"
    using sR split by (metis sorted_wrt_append)
  have 3: "sorted (map snd hits)"
    using 4 by (simp add: sorted_map)
      (erule sorted_wrt_mono_rel[rotated], auto simp: lex_before_def)
  have 5: "\<forall>j < length (vectors (index s)). j \<notin> fst ` set hits \<longrightarrow>
          (\<forall>h \<in> set hits. lex_before h (j, metric qe (vectors (index s) ! j)))"
  proof (intro allI impI)
    fix j assume j: "j < length (vectors (index s))" "j \<notin> fst ` set hits"
    let ?e = "(j, metric qe (vectors (index s) ! j))"
    have "?e \<in> set R"
      using j(1) setR by blast
    moreover have "?e \<notin> set hits"
      using j(2) by force
    ultimately have "?e \<in> set (drop (nat k) R)"
      using split by (metis Un_iff set_append)
    then show "\<forall>h \<in> set hits. lex_before h ?e"
      using cross by blast
  qed
  from 1 2 rng 3 4 5 show ?thesis by blast
qed

theorem search_returns_nearest_witness:
  "\<exists>hits. search l2sqr demo_encode (fst (run demo_encode [Construct NoFault])) ''chest pain'' 3
       = Inr (map (\<lambda>h. (documents (fst (run demo_encode [Construct NoFault])) ! fst h, snd h)) hits)
     \<and> length hits = 3 \<and> sorted (map snd hits) \<and> sorted_wrt lex_before hits"
proof -
  let ?s = "fst (run demo_encode [Construct NoFault])"
  let ?q = "replicate 384 (real (length ''chest pain''))"
  have h1: "counts_agree ?s" by (simp add: eval_defs)
  have h2: "(0::int) < 3" by simp
  have h3: "demo_encode ''chest pain'' = Some ?q" by (simp add: demo_encode_def)
  have h4: "length ?q = dim (index ?s)" by (simp add: eval_defs)
  have n: "length (vectors (index ?s)) = 10" by (simp add: eval_defs)
  from search_returns_nearest[of ?s 3 demo_encode "''chest pain''" ?q l2sqr] h1 h2 h3 h4 n
  show ?thesis by fastforce
qed

text \<open>
  Without the condition on the counts the number of results is not \<open>min k total_count\<close>:
  on the corpus of eleven embeddings and ten documents that a save failing between its
  two writes leaves for the next construction, the query nearest to position 10 with
  \<open>k = 3\<close> gets two results.
\<close>

theorem search_shorter_than_min_k:
  "map_sum id length
     (search l2sqr demo_encode
        (fst (run demo_encode
           [Construct NoFault, trauma_note, Save DataOpenFails, Construct NoFault]))
        ''sprained ankle after fall'' 3) = Inr 2
   \<and> min 3 (ntotal (index (fst (run demo_encode
           [Construct NoFault, trauma_note, Save DataOpenFails, Construct NoFault])))) = 3"
  by (simp add: search_def index_search_def ntotal_def ranked_def rank_key_def
      l2sqr_replicate eval_defs text_defs)

text \<open>
  C3. For every query and every \<open>k\<close>, positive or not, \<^verbatim>\<open>search\<close> on an empty corpus
  returns the empty sequence without an exception. On a corpus that is not empty,
  \<^verbatim>\<open>search\<close> has no guard on \<open>k\<close>: it passes \<open>min k ntotal\<close> to the index, and for
  \<open>k \<le> 0\<close> the call raises instead of returning the empty sequence.
\<close>

theorem search_empty_corpus:
  "(vectors (index s) = [] \<longrightarrow> search metric encode s query k = Inr [])
   \<and> (vectors (index s) \<noteq> [] \<and> k \<le> 0 \<longrightarrow> isl (search metric encode s query k))"
  by (auto simp: search_def ntotal_def index_search_def split: option.splits)

theorem search_empty_corpus_witness:
  "vectors (index (load \<lparr>index_file = Corrupt, data_file = Absent\<rparr>)) = []
   \<and> search l2sqr demo_encode (load \<lparr>index_file = Corrupt, data_file = Absent\<rparr>) ''anything'' 5 = Inr []
   \<and> search l2sqr demo_encode (load \<lparr>index_file = Corrupt, data_file = Absent\<rparr>) ''anything'' (- 2) = Inr []
   \<and> vectors (index (fst (run demo_encode [Construct NoFault]))) \<noteq> []
   \<and> isl (search l2sqr demo_encode (fst (run demo_encode [Construct NoFault])) ''anything'' 0)"
proof -
  let ?e = "load \<lparr>index_file = Corrupt, data_file = Absent\<rparr>"
  let ?s = "fst (run demo_encode [Construct NoFault])"
  have e: "vectors (index ?e) = []" by (simp add: load_def IndexFlatL2_def)
  have s: "vectors (index ?s) \<noteq> []" by (simp add: eval_defs)
  show ?thesis
    using e s
      search_empty_corpus[where metric = l2sqr and s = ?e and encode = demo_encode and query = "''anything''" and k = 5]
      search_empty_corpus[where metric = l2sqr and s = ?e and encode = demo_encode and query = "''anything''" and k = "- 2"]
      search_empty_corpus[where metric = l2sqr and s = ?s and encode = demo_encode and query = "''anything''" and k = 0]
    by simp
qed

text \<open>
  On the seeded corpus of ten documents, \<open>k = - 1\<close> and \<open>k = 0\<close> do not give the empty
  sequence: the index rejects the non-positive \<open>k\<close> it is handed.
\<close>

theorem search_nonpositive_k_raises:
  "search l2sqr demo_encode (fst (run demo_encode [Construct NoFault])) ''chest pain'' (- 1)
     = Inl AssertionError
   \<and> search l2sqr demo_encode (fst (run demo_encode [Construct NoFault])) ''chest pain'' 0
     = Inl AssertionError"
  by (simp add: search_def index_search_def ntotal_def eval_defs)

text \<open>
  C4. A \<^verbatim>\<open>save\<close> that completes, followed by \<^verbatim>\<open>load\<close>, gives back the corpus that was
  saved: the same index (dimension and embeddings in order) and the same documents
  (texts and metadata in order); \<^verbatim>\<open>search\<close> gives the same result after the round trip
  as before, for every query and \<open>k\<close>; \<^verbatim>\<open>save\<close> itself leaves the object unchanged.
\<close>

theorem save_load_round_trip:
  "load (save NoFault s dk) = s
   \<and> search metric encode (load (save NoFault s dk)) query k = search metric encode s query k
   \<and> fst (step encode (s, dk) (Save NoFault)) = s"
proof -
  have "load (save NoFault s dk) = s"
    by (simp add: load_def)
  then show ?thesis by simp
qed

text \<open>
  C5. \<^verbatim>\<open>save\<close> writes the index file and then the document file in place, with no
  temporary file and no replacement on success only. It never changes the object. A
  save that completes leaves both files holding the corpus; a failure to open the index
  file leaves both files as they were; any later failure leaves the index file already
  rewritten or truncated.
\<close>

theorem save_writes_in_place:
  "step encode (s, dk) (Save f) = (s, save f s dk)
   \<and> save NoFault s dk = \<lparr>index_file = Intact (index s), data_file = Intact (documents s)\<rparr>
   \<and> save IndexOpenFails s dk = dk
   \<and> save IndexWriteFails s dk = \<lparr>index_file = Corrupt, data_file = data_file dk\<rparr>
   \<and> save DataOpenFails s dk = \<lparr>index_file = Intact (index s), data_file = data_file dk\<rparr>
   \<and> save DataDumpFails s dk = \<lparr>index_file = Intact (index s), data_file = Corrupt\<rparr>"
  by simp

text \<open>
  After construction on an empty location and one more document, a save whose document
  file fails to open does not leave the persisted pair intact: the index file is
  replaced, and the pair left behind loads without an exception into a corpus of eleven
  embeddings and ten documents.
\<close>

theorem save_failure_replaces_index:
  "(case run demo_encode [Construct NoFault, trauma_note] of
      (s, dk) \<Rightarrow> save DataOpenFails s dk \<noteq> dk
        \<and> index_file (save DataOpenFails s dk) \<noteq> index_file dk
        \<and> \<not> counts_agree (load (save DataOpenFails s dk)))"
  by (simp add: eval_defs)

text \<open>
  C6. When the index file or the document file is missing or does not deserialise,
  \<^verbatim>\<open>load\<close> raises nothing and leaves the empty corpus (an empty index of the service's
  dimension and no documents); seeding that corpus, with a model that embeds the
  starter texts, stores exactly the starter set, in the order of the table.
\<close>

theorem load_falls_back_to_empty:
  assumes "index_file dk = Absent \<or> index_file dk = Corrupt
           \<or> data_file dk = Absent \<or> data_file dk = Corrupt"
    and "list_all (\<lambda>e. encodes encode (entry_text e)) medical_knowledge"
  shows "load dk = \<lparr>index = IndexFlatL2 dimension, documents = []\<rparr>
    \<and> (\<exists>s'. initialize_medical_knowledge encode f (load dk) dk = Inr (s', save f s' dk)
          \<and> documents s' = map entry_document medical_knowledge
          \<and> vectors (index s') = map (\<lambda>e. the (encode (entry_text e))) medical_knowledge)"
proof -
  have l: "load dk = \<lparr>index = IndexFlatL2 dimension, documents = []\<rparr>"
    using assms(1) by (auto simp: load_def split: artifact.splits)
  have "dim (index (load dk)) = dimension"
    by (simp add: l IndexFlatL2_def)
  from seed_ok[OF assms(2) this, of f dk] l show ?thesis
    by (simp add: IndexFlatL2_def)
qed

theorem load_falls_back_to_empty_witness:
  "load \<lparr>index_file = Intact (IndexFlatL2 384), data_file = Corrupt\<rparr>
     = \<lparr>index = IndexFlatL2 dimension, documents = []\<rparr>
   \<and> (\<exists>s'. initialize_medical_knowledge demo_encode NoFault
              (load \<lparr>index_file = Intact (IndexFlatL2 384), data_file = Corrupt\<rparr>)
              \<lparr>index_file = Intact (IndexFlatL2 384), data_file = Corrupt\<rparr>
            = Inr (s', \<lparr>index_file = Intact (index s'), data_file = Intact (documents s')\<rparr>)
          \<and> documents s' = map entry_document medical_knowledge
          \<and> length (documents s') = 10)"
proof -
  let ?dk = "\<lparr>index_file = Intact (IndexFlatL2 384), data_file = Corrupt\<rparr>"
  have h: "index_file ?dk = Absent \<or> index_file ?dk = Corrupt
           \<or> data_file ?dk = Absent \<or> data_file ?dk = Corrupt"
    by simp
  have n: "length medical_knowledge = 10"
    by (simp add: medical_knowledge_def)
  from load_falls_back_to_empty[OF h demo_encode_starter, of NoFault] n
  show ?thesis by auto
qed

text \<open>
  C7. When \<^verbatim>\<open>search\<close> resolves the hits of the index, a position at or beyond the end
  of the document list is skipped without an exception; every position below the
  length of the list is resolved to the document there, and the results keep the order
  of the hits.
\<close>

theorem search_skips_unassigned:
  assumes "vectors (index s) \<noteq> []" "0 < k" "encode query = Some qe"
    "length qe = dim (index s)"
  shows "search metric encode s query k =
    Inr (map (\<lambda>h. (documents s ! fst h, snd h))
          (filter (\<lambda>h. fst h < length (documents s)) (take (nat k) (ranked metric (index s) qe))))"
  using search_nonempty[of s k encode query qe metric] assms by (simp add: resolve_filter)

theorem search_skips_unassigned_witness:
  "\<exists>r. search l2sqr demo_encode
     (fst (run demo_encode [Construct NoFault, trauma_note, Save DataOpenFails, Construct NoFault]))
     ''chest pain'' 11 = Inr r \<and> length r = 10"
proof -
  let ?s = "fst (run demo_encode
      [Construct NoFault, trauma_note, Save DataOpenFails, Construct NoFault])"
  let ?q = "replicate 384 (real (length ''chest pain''))"
  have h1: "vectors (index ?s) \<noteq> []" by (simp add: eval_defs)
  have h2: "(0::int) < 11" by simp
  have h3: "demo_encode ''chest pain'' = Some ?q" by (simp add: demo_encode_def)
  have h4: "length ?q = dim (index ?s)" by (simp add: eval_defs)
  have n: "length (filter (\<lambda>h. fst h < length (documents ?s))
             (take (nat 11) (ranked l2sqr (index ?s) ?q))) = 10"
    by (simp add: ranked_def rank_key_def l2sqr_replicate eval_defs text_defs)
  from search_skips_unassigned[of ?s 11 demo_encode "''chest pain''" ?q l2sqr] h1 h2 h3 h4 n
  show ?thesis by simp
qed

text \<open>
  No exception reaches the caller for an unassigned position: on the corpus of eleven
  embeddings and ten documents, the nearest embedding to the query is the eleventh, at
  position 10, and \<^verbatim>\<open>search\<close> with \<open>k = 1\<close> returns the empty sequence.
\<close>

theorem search_unassigned_position_no_error:
  "search l2sqr demo_encode
     (fst (run demo_encode [Construct NoFault, trauma_note, Save DataOpenFails, Construct NoFault]))
     ''sprained ankle after fall'' 1 = Inr []"
  by (simp add: search_def index_search_def ntotal_def ranked_def rank_key_def
      l2sqr_replicate eval_defs text_defs)

text \<open>
  C8. \<^verbatim>\<open>get_relevant_knowledge\<close> returns the documents of \<^verbatim>\<open>search\<close> for the same
  query and \<open>k\<close>, in the same order, without the distances; an exception of \<^verbatim>\<open>search\<close>
  passes through unchanged.
\<close>

theorem get_relevant_knowledge_drops_distances:
  "get_relevant_knowledge metric encode s symptoms k = map_sum id (map fst) (search metric encode s symptoms k)"
  by (cases "search metric encode s symptoms k") (simp_all add: get_relevant_knowledge_def)

text \<open>
  C9. The constructor seeds only the empty corpus it has just created, when it finds no
  index file; when it finds one, the corpus is what \<^verbatim>\<open>load\<close> gives and nothing is
  seeded. With a model that embeds the starter texts, the seeding stores the ten entries
  of the table through \<^verbatim>\<open>add_document\<close>, in the order of the table, at positions 0 to 9,
  each with its whole entry (text, category, urgency) as metadata, and then saves.
\<close>

theorem seeding_at_construction:
  assumes "list_all (\<lambda>e. encodes encode (entry_text e)) medical_knowledge"
  shows "(index_file dk \<noteq> Absent \<longrightarrow> init encode f dk = Inr (load dk, dk))
    \<and> (index_file dk = Absent \<longrightarrow>
         (\<exists>s'. init encode f dk = Inr (s', save f s' dk)
            \<and> documents s' = map entry_document medical_knowledge
            \<and> vectors (index s') = map (\<lambda>e. the (encode (entry_text e))) medical_knowledge
            \<and> (\<forall>i < 10. documents s' ! i = entry_document (medical_knowledge ! i))))
    \<and> length medical_knowledge = 10
    \<and> list_all (\<lambda>e. map fst e = [''text'', ''category'', ''urgency'']) medical_knowledge"
proof -
  have n: "length medical_knowledge = 10"
    by (simp add: medical_knowledge_def)
  have k: "list_all (\<lambda>e. map fst e = [''text'', ''category'', ''urgency'']) medical_knowledge"
    by (simp add: medical_knowledge_def knowledge_entry_def)
  have a: "index_file dk \<noteq> Absent \<longrightarrow> init encode f dk = Inr (load dk, dk)"
    by (simp add: init_def)
  have b: "index_file dk = Absent \<longrightarrow>
         (\<exists>s'. init encode f dk = Inr (s', save f s' dk)
            \<and> documents s' = map entry_document medical_knowledge
            \<and> vectors (index s') = map (\<lambda>e. the (encode (entry_text e))) medical_knowledge
            \<and> (\<forall>i < 10. documents s' ! i = entry_document (medical_knowledge ! i)))"
    using seed_ok[OF assms, of "\<lparr>index = IndexFlatL2 dimension, documents = []\<rparr>" f dk] n
    by (simp add: init_def IndexFlatL2_def)
  from a b n k show ?thesis by blast
qed

theorem seeding_at_construction_witness:
  "index_file \<lparr>index_file = Corrupt, data_file = Absent\<rparr> \<noteq> Absent
   \<and> init demo_encode NoFault \<lparr>index_file = Corrupt, data_file = Absent\<rparr>
       = Inr (\<lparr>index = IndexFlatL2 dimension, documents = []\<rparr>,
              \<lparr>index_file = Corrupt, data_file = Absent\<rparr>)
   \<and> index_file \<lparr>index_file = Absent, data_file = Absent\<rparr> = Absent
   \<and> (\<exists>s'. init demo_encode NoFault \<lparr>index_file = Absent, data_file = Absent\<rparr>
              = Inr (s', \<lparr>index_file = Intact (index s'), data_file = Intact (documents s')\<rparr>)
          \<and> length (documents s') = 10
          \<and> documents s' ! 1 = \<lparr>doc_text = starter_text_1,
               doc_metadata = PDict [(''text'', PStr starter_text_1),
                 (''category'', PStr ''cardiac''), (''urgency'', PStr ''CRITICAL'')]\<rparr>)"
proof -
  let ?c = "\<lparr>index_file = Corrupt, data_file = Absent\<rparr>"
  let ?a = "\<lparr>index_file = Absent, data_file = Absent\<rparr>"
  have l: "load ?c = \<lparr>index = IndexFlatL2 dimension, documents = []\<rparr>"
    by (simp add: load_def)
  have e: "entry_document (medical_knowledge ! 1) = \<lparr>doc_text = starter_text_1,
               doc_metadata = PDict [(''text'', PStr starter_text_1),
                 (''category'', PStr ''cardiac''), (''urgency'', PStr ''CRITICAL'')]\<rparr>"
    by (simp add: medical_knowledge_def knowledge_entry_def entry_document_def entry_text_def)
  from seeding_at_construction[OF demo_encode_starter, of ?c NoFault]
    seeding_at_construction[OF demo_encode_starter, of ?a NoFault] l e
  show ?thesis by auto
qed

text \<open>
  C10. A call of \<^verbatim>\<open>add_document\<close> that returns appends one document with the given
  text; when the metadata argument is \<^verbatim>\<open>None\<close> (also by default) the stored metadata is
  the empty dict, and when the argument is \<^verbatim>\<open>None\<close> or a dict the stored metadata is a
  dict, never \<^verbatim>\<open>None\<close>.
\<close>

theorem add_document_default_metadata:
  assumes "add_document encode s txt md = Inr s'" and "md = PNone \<or> is_dict md"
  shows "butlast (documents s') = documents s
    \<and> doc_text (last (documents s')) = txt
    \<and> is_dict (doc_metadata (last (documents s')))
    \<and> (md = PNone \<longrightarrow> doc_metadata (last (documents s')) = PDict [])"
proof -
  obtain v idx' where "encode txt = Some v" "index_add (index s) v = Inr idx'"
    and s': "s' = s\<lparr>index := idx', documents := documents s @
                 [\<lparr>doc_text = txt, doc_metadata = (if truthy md then md else PDict [])\<rparr>]\<rparr>"
    using assms(1) by (auto simp: add_document_def split: option.splits sum.splits)
  from assms(2) have "is_dict (if truthy md then md else PDict [])"
    by (cases md) auto
  moreover have "md = PNone \<longrightarrow> (if truthy md then md else PDict []) = PDict []"
    by simp
  ultimately show ?thesis
    by (simp add: s')
qed

theorem add_document_default_metadata_witness:
  "\<exists>s'. add_document demo_encode (fst (run demo_encode [Construct NoFault])) ''mild cough'' PNone
          = Inr s'
     \<and> butlast (documents s') = documents (fst (run demo_encode [Construct NoFault]))
     \<and> doc_metadata (last (documents s')) = PDict []"
proof -
  let ?s = "fst (run demo_encode [Construct NoFault])"
  obtain s' where a: "add_document demo_encode ?s ''mild cough'' PNone = Inr s'"
    by (simp add: eval_defs)
  have b: "PNone = PNone \<or> is_dict PNone" by simp
  from add_document_default_metadata[OF a b] a show ?thesis by simp
qed

end
